theory Spec2Isabelle
  imports Complex_Main
begin

section \<open>JavaScript values\<close>

text \<open>
  The coordinates of a vector are JavaScript numbers. A read of a property that an object
  does not have gives \<open>undefined\<close>, and the source tests for it (\<open>v.z || 0\<close>), so the
  values of the model are \<open>undefined\<close>, \<open>NaN\<close> and the numbers. A number is a real:
  rounding, overflow to infinity and the sign of zero are not part of the model, and
  \<open>div\<close>, whose result at \<open>0\<close> is infinite or depends on the sign of zero, is left out,
  as are \<open>distance\<close>, \<open>toString\<close>, \<open>toVector3d\<close> and the twins \<open>clamp\<close>, \<open>floor\<close>,
  \<open>ceil\<close> and \<open>negate\<close> that build a new vector.
\<close>

datatype jsval = Undefined | NaN | Number real

text \<open>ToBoolean: \<open>undefined\<close>, \<open>NaN\<close> and \<open>0\<close> are falsy.\<close>

fun truthy :: "jsval \<Rightarrow> bool" where
  "truthy Undefined = False"
| "truthy NaN = False"
| "truthy (Number r) = (r \<noteq> 0)"

text \<open>\<open>a || b\<close>\<close>

definition js_or :: "jsval \<Rightarrow> jsval \<Rightarrow> jsval" where
  "js_or a b = (if truthy a then a else b)"

text \<open>A number other than \<open>NaN\<close>.\<close>

fun is_number :: "jsval \<Rightarrow> bool" where
  "is_number (Number r) = True"
| "is_number _ = False"

text \<open>
  The arithmetic operators convert their operands with ToNumber, which sends
  \<open>undefined\<close> to \<open>NaN\<close>; \<open>NaN\<close> is absorbing.
\<close>

fun js_add :: "jsval \<Rightarrow> jsval \<Rightarrow> jsval" where
  "js_add (Number a) (Number b) = Number (a + b)"
| "js_add _ _ = NaN"

fun js_sub :: "jsval \<Rightarrow> jsval \<Rightarrow> jsval" where
  "js_sub (Number a) (Number b) = Number (a - b)"
| "js_sub _ _ = NaN"

fun js_mul :: "jsval \<Rightarrow> jsval \<Rightarrow> jsval" where
  "js_mul (Number a) (Number b) = Number (a * b)"
| "js_mul _ _ = NaN"

fun js_neg :: "jsval \<Rightarrow> jsval" where
  "js_neg (Number a) = Number (- a)"
| "js_neg _ = NaN"

text \<open>The relational operators are false as soon as one operand is \<open>NaN\<close>.\<close>

fun js_lt :: "jsval \<Rightarrow> jsval \<Rightarrow> bool" where
  "js_lt (Number a) (Number b) = (a < b)"
| "js_lt _ _ = False"

fun js_gt :: "jsval \<Rightarrow> jsval \<Rightarrow> bool" where
  "js_gt (Number a) (Number b) = (a > b)"
| "js_gt _ _ = False"

fun js_le :: "jsval \<Rightarrow> jsval \<Rightarrow> bool" where
  "js_le (Number a) (Number b) = (a \<le> b)"
| "js_le _ _ = False"

fun js_ge :: "jsval \<Rightarrow> jsval \<Rightarrow> bool" where
  "js_ge (Number a) (Number b) = (a \<ge> b)"
| "js_ge _ _ = False"

text \<open>\<open>a === b\<close>: \<open>NaN\<close> is equal to nothing, itself included.\<close>

fun strict_eq :: "jsval \<Rightarrow> jsval \<Rightarrow> bool" where
  "strict_eq (Number a) (Number b) = (a = b)"
| "strict_eq Undefined Undefined = True"
| "strict_eq _ _ = False"

section \<open>The observer callback\<close>

text \<open>
  The value \<open>onUpdate\<close> is called on: \<open>undefined\<close>, \<open>null\<close> or an object, known by its
  identity.
\<close>

datatype scopev = ScUndefined | ScNull | ScObject nat

text \<open>
  What the callback returns, by its signature \<open>-> optional {x?, y?, z?}\<close>: nothing
  (\<open>undefined\<close>, on which \<open>ret && ...\<close> is false), or an object, a map from property
  names to values.
\<close>

datatype cbret = NoObject | Object "string \<Rightarrow> jsval option"

fun truthy_ret :: "cbret \<Rightarrow> bool" where
  "truthy_ret NoObject = False"
| "truthy_ret (Object m) = True"

text \<open>\<open>k in ret\<close>\<close>

fun key_in :: "string \<Rightarrow> cbret \<Rightarrow> bool" where
  "key_in k NoObject = False"
| "key_in k (Object m) = (case m k of None \<Rightarrow> False | Some w \<Rightarrow> True)"

text \<open>\<open>ret.k\<close>\<close>

fun get_prop :: "cbret \<Rightarrow> string \<Rightarrow> jsval" where
  "get_prop NoObject k = Undefined"
| "get_prop (Object m) k = (case m k of None \<Rightarrow> Undefined | Some w \<Rightarrow> w)"

text \<open>
  A callback is a function of the receiver it is called on and of its six arguments; what
  it does besides returning, a write to the vector from inside the call included, is not
  modelled. \<open>typeof fn\<close> is \<open>"function"\<close> for \<open>Function f\<close> only.
\<close>

type_synonym callback =
  "scopev \<Rightarrow> jsval \<Rightarrow> jsval \<Rightarrow> jsval \<Rightarrow> jsval \<Rightarrow> jsval \<Rightarrow> jsval \<Rightarrow> cbret"

datatype fnval = NotFunction | Function callback

text \<open>One call of the callback, as the test's callback records it.\<close>

record invocation =
  inv_scope :: scopev
  newX :: jsval
  newY :: jsval
  newZ :: jsval
  oldX :: jsval
  oldY :: jsval
  oldZ :: jsval

section \<open>The observable vector\<close>

text \<open>
  The fields \<open>_x\<close>, \<open>_y\<close>, \<open>_z\<close>, \<open>onUpdate\<close> and \<open>scope\<close> of an \<open>ObservableVector3d\<close>.
\<close>

record ovec =
  priv_x :: jsval
  priv_y :: jsval
  priv_z :: jsval
  onUpdate :: fnval
  scope :: scopev

text \<open>An argument vector, 2D or 3D, read through \<open>v.x\<close>, \<open>v.y\<close>, \<open>v.z\<close>.\<close>

record vec =
  vec_x :: jsval
  vec_y :: jsval
  vec_z :: jsval

datatype error = Error string | TypeError

datatype 'a completion = Returned 'a | Threw error

text \<open>What a method returns for chaining: \<open>this\<close>, or the argument \<open>target\<close>.\<close>

datatype ref = This | Target

text \<open>
  A method maps the receiver to how it completes, the receiver afterwards and the
  callback invocations it made, in order.
\<close>

type_synonym 'a outcome = "'a completion \<times> ovec \<times> invocation list"

definition completion_of :: "'a outcome \<Rightarrow> 'a completion" where
  "completion_of r = fst r"

definition after :: "'a outcome \<Rightarrow> ovec" where
  "after r = fst (snd r)"

definition notified :: "'a outcome \<Rightarrow> invocation list" where
  "notified r = snd (snd r)"

text \<open>
  \<open>this.onUpdate.call(this.scope, a, b, c, d, e, f)\<close>. Calling a value that is not a
  function throws a \<open>TypeError\<close>.
\<close>

definition call_onUpdate ::
  "ovec \<Rightarrow> jsval \<Rightarrow> jsval \<Rightarrow> jsval \<Rightarrow> jsval \<Rightarrow> jsval \<Rightarrow> jsval
    \<Rightarrow> cbret completion \<times> invocation list" where
  "call_onUpdate v a b c d e f =
     (case onUpdate v of
        NotFunction \<Rightarrow> (Threw TypeError, [])
      | Function cb \<Rightarrow>
          (Returned (cb (scope v) a b c d e f),
           [\<lparr>inv_scope = scope v, newX = a, newY = b, newZ = c,
             oldX = d, oldY = e, oldZ = f\<rparr>]))"

subsection \<open>The coordinate properties\<close>

definition get_x :: "ovec \<Rightarrow> jsval" where
  "get_x v = priv_x v"

definition set_x :: "ovec \<Rightarrow> jsval \<Rightarrow> unit outcome" where
  "set_x v val =
     (case call_onUpdate v val (priv_y v) (priv_z v) (priv_x v) (priv_y v) (priv_z v) of
        (Threw e, cs) \<Rightarrow> (Threw e, v, cs)
      | (Returned ret, cs) \<Rightarrow>
          (Returned (),
           (if truthy_ret ret \<and> key_in ''x'' ret
            then v\<lparr>priv_x := get_prop ret ''x''\<rparr>
            else v\<lparr>priv_x := val\<rparr>),
           cs))"

definition get_y :: "ovec \<Rightarrow> jsval" where
  "get_y v = priv_y v"

definition set_y :: "ovec \<Rightarrow> jsval \<Rightarrow> unit outcome" where
  "set_y v val =
     (case call_onUpdate v (priv_x v) val (priv_z v) (priv_x v) (priv_y v) (priv_z v) of
        (Threw e, cs) \<Rightarrow> (Threw e, v, cs)
      | (Returned ret, cs) \<Rightarrow>
          (Returned (),
           (if truthy_ret ret \<and> key_in ''y'' ret
            then v\<lparr>priv_y := get_prop ret ''y''\<rparr>
            else v\<lparr>priv_y := val\<rparr>),
           cs))"

definition get_z :: "ovec \<Rightarrow> jsval" where
  "get_z v = priv_z v"

definition set_z :: "ovec \<Rightarrow> jsval \<Rightarrow> unit outcome" where
  "set_z v val =
     (case call_onUpdate v (priv_x v) (priv_y v) val (priv_x v) (priv_y v) (priv_z v) of
        (Threw e, cs) \<Rightarrow> (Threw e, v, cs)
      | (Returned ret, cs) \<Rightarrow>
          (Returned (),
           (if truthy_ret ret \<and> key_in ''z'' ret
            then v\<lparr>priv_z := get_prop ret ''z''\<rparr>
            else v\<lparr>priv_z := val\<rparr>),
           cs))"

subsection \<open>The batch write \<open>_set\<close> and the muted write\<close>

definition priv_set :: "ovec \<Rightarrow> jsval \<Rightarrow> jsval \<Rightarrow> jsval \<Rightarrow> ref outcome" where
  "priv_set v x y z =
     (case call_onUpdate v x y z (priv_x v) (priv_y v) (priv_z v) of
        (Threw e, cs) \<Rightarrow> (Threw e, v, cs)
      | (Returned ret, cs) \<Rightarrow>
          (Returned This,
           (if truthy_ret ret \<and> key_in ''x'' ret \<and> key_in ''y'' ret \<and> key_in ''z'' ret
            then v\<lparr>priv_x := get_prop ret ''x'', priv_y := get_prop ret ''y'',
                   priv_z := get_prop ret ''z''\<rparr>
            else v\<lparr>priv_x := x, priv_y := y, priv_z := js_or z (Number 0)\<rparr>),
           cs))"

definition setMuted :: "ovec \<Rightarrow> jsval \<Rightarrow> jsval \<Rightarrow> jsval \<Rightarrow> ref outcome" where
  "setMuted v x y z =
     (Returned This, v\<lparr>priv_x := x, priv_y := y, priv_z := js_or z (Number 0)\<rparr>, [])"

subsection \<open>Binding the callback\<close>

text \<open>
  \<open>setCallback(fn, scope = null)\<close>: the default value stands for an argument that is
  \<open>undefined\<close>.
\<close>

definition default_scope :: "scopev \<Rightarrow> scopev" where
  "default_scope sc = (if sc = ScUndefined then ScNull else sc)"

definition setCallback :: "ovec \<Rightarrow> fnval \<Rightarrow> scopev \<Rightarrow> ref outcome" where
  "setCallback v fn sc =
     (case fn of
        NotFunction \<Rightarrow> (Threw (Error ''invalid `onUpdate` callback''), v, [])
      | Function f \<Rightarrow> (Returned This, v\<lparr>onUpdate := fn, scope := default_scope sc\<rparr>, []))"

text \<open>
  The \<open>settings\<close> argument, when it is given: \<open>settings.onUpdate\<close> and \<open>settings.scope\<close>,
  each \<open>undefined\<close> when the object lacks the key.
\<close>

record settings =
  settings_onUpdate :: fnval
  settings_scope :: scopev

text \<open>A parameter with a default value, \<open>x = 0\<close>: the default replaces \<open>undefined\<close>.\<close>

definition default_arg :: "jsval \<Rightarrow> jsval \<Rightarrow> jsval" where
  "default_arg a d = (if a = Undefined then d else a)"

definition onResetEvent ::
  "ovec \<Rightarrow> jsval \<Rightarrow> jsval \<Rightarrow> jsval \<Rightarrow> settings option \<Rightarrow> ref outcome" where
  "onResetEvent v x y z st =
     (case setMuted v (default_arg x (Number 0)) (default_arg y (Number 0))
             (default_arg z (Number 0)) of
        (Threw e, v1, cs1) \<Rightarrow> (Threw e, v1, cs1)
      | (Returned r1, v1, cs1) \<Rightarrow>
          (case st of
             None \<Rightarrow> (Returned This, v1, cs1)
           | Some s \<Rightarrow>
               (case setCallback v1 (settings_onUpdate s) (settings_scope s) of
                  (Threw e, v2, cs2) \<Rightarrow> (Threw e, v2, cs1 @ cs2)
                | (Returned r2, v2, cs2) \<Rightarrow> (Returned This, v2, cs1 @ cs2))))"

text \<open>The object before its constructor has assigned any field.\<close>

definition blank :: ovec where
  "blank = \<lparr>priv_x = Undefined, priv_y = Undefined, priv_z = Undefined,
            onUpdate = NotFunction, scope = ScUndefined\<rparr>"

text \<open>
  Modelled from the spec: the constructor of the base class \<open>Vector3d\<close>, called as
  \<open>super(x, y, z)\<close> (\<open>vector3.js\<close> is not among the sources). The spec has construction
  go through the muted write ("Muted write (\<open>setMuted\<close>, used by construction/reset)"),
  and the comment in \<open>onResetEvent\<close> says the constructor calls it: the base constructor
  is the reset entry point with no settings, on the blank object.
\<close>

definition Vector3d_constructor :: "jsval \<Rightarrow> jsval \<Rightarrow> jsval \<Rightarrow> ref outcome" where
  "Vector3d_constructor x y z = onResetEvent blank x y z None"

text \<open>
  \<open>new ObservableVector3d(x, y, z, settings)\<close>: the new object, or the error thrown, in
  which case there is no object.
\<close>

definition constructor ::
  "jsval \<Rightarrow> jsval \<Rightarrow> jsval \<Rightarrow> settings option \<Rightarrow> ovec completion \<times> invocation list" where
  "constructor x y z st =
     (case Vector3d_constructor (default_arg x (Number 0)) (default_arg y (Number 0))
             (default_arg z (Number 0)) of
        (Threw e, v0, cs0) \<Rightarrow> (Threw e, cs0)
      | (Returned r0, v0, cs0) \<Rightarrow>
          (case st of
             None \<Rightarrow> (Threw (Error ''undefined `onUpdate` callback''), cs0)
           | Some s \<Rightarrow>
               (case setCallback v0 (settings_onUpdate s) (settings_scope s) of
                  (Threw e, v1, cs1) \<Rightarrow> (Threw e, cs0 @ cs1)
                | (Returned r1, v1, cs1) \<Rightarrow> (Returned v1, cs0 @ cs1))))"

subsection \<open>The functions of \<open>Math\<close>\<close>

fun math_floor :: "jsval \<Rightarrow> jsval" where
  "math_floor (Number a) = Number (of_int \<lfloor>a\<rfloor>)"
| "math_floor _ = NaN"

fun math_ceil :: "jsval \<Rightarrow> jsval" where
  "math_ceil (Number a) = Number (of_int \<lceil>a\<rceil>)"
| "math_ceil _ = NaN"

fun math_sqrt :: "jsval \<Rightarrow> jsval" where
  "math_sqrt (Number a) = (if a < 0 then NaN else Number (sqrt a))"
| "math_sqrt _ = NaN"

fun math_cos :: "jsval \<Rightarrow> jsval" where
  "math_cos (Number a) = Number (cos a)"
| "math_cos _ = NaN"

fun math_sin :: "jsval \<Rightarrow> jsval" where
  "math_sin (Number a) = Number (sin a)"
| "math_sin _ = NaN"

text \<open>The angle of the point \<open>(x, y)\<close>, in \<open>(-\<pi>, \<pi>]\<close>; \<open>0\<close> at the origin.\<close>

definition atan2 :: "real \<Rightarrow> real \<Rightarrow> real" where
  "atan2 y x =
     (if 0 < x then arctan (y / x)
      else if x < 0 then (if 0 \<le> y then arctan (y / x) + pi else arctan (y / x) - pi)
      else if 0 < y then pi / 2
      else if y < 0 then - (pi / 2)
      else 0)"

fun math_atan2 :: "jsval \<Rightarrow> jsval \<Rightarrow> jsval" where
  "math_atan2 (Number y) (Number x) = Number (atan2 y x)"
| "math_atan2 _ _ = NaN"

text \<open>
  Modelled from the spec: \<open>clamp\<close> of \<open>math.ts\<close>, which is not among the sources:
  "standard clamp, low/high order not validated", the result being what the comparison
  chain gives.
\<close>

definition clamp :: "jsval \<Rightarrow> jsval \<Rightarrow> jsval \<Rightarrow> jsval" where
  "clamp val low high =
     (if js_lt val low then low else if js_gt val high then high else val)"

subsection \<open>The methods that write through \<open>_set\<close>\<close>

definition add :: "ovec \<Rightarrow> vec \<Rightarrow> ref outcome" where
  "add v w =
     priv_set v (js_add (priv_x v) (vec_x w)) (js_add (priv_y v) (vec_y w))
       (js_add (priv_z v) (js_or (vec_z w) (Number 0)))"

definition sub :: "ovec \<Rightarrow> vec \<Rightarrow> ref outcome" where
  "sub v w =
     priv_set v (js_sub (priv_x v) (vec_x w)) (js_sub (priv_y v) (vec_y w))
       (js_sub (priv_z v) (js_or (vec_z w) (Number 0)))"

text \<open>\<open>scale(x, y = x, z = 1)\<close>\<close>

definition scale :: "ovec \<Rightarrow> jsval \<Rightarrow> jsval \<Rightarrow> jsval \<Rightarrow> ref outcome" where
  "scale v x y z =
     priv_set v (js_mul (priv_x v) x) (js_mul (priv_y v) (default_arg y x))
       (js_mul (priv_z v) (default_arg z (Number 1)))"

definition scaleV :: "ovec \<Rightarrow> vec \<Rightarrow> ref outcome" where
  "scaleV v w =
     priv_set v (js_mul (priv_x v) (vec_x w)) (js_mul (priv_y v) (vec_y w))
       (js_mul (priv_z v) (js_or (vec_z w) (Number 1)))"

text \<open>
  \<open>abs\<close> tests \<open>this._Z\<close>, with a capital letter: a field that no method assigns, so the
  read gives \<open>undefined\<close>.
\<close>

definition priv_Z :: "ovec \<Rightarrow> jsval" where
  "priv_Z v = Undefined"

definition abs_v :: "ovec \<Rightarrow> ref outcome" where
  "abs_v v =
     priv_set v
       (if js_lt (priv_x v) (Number 0) then js_neg (priv_x v) else priv_x v)
       (if js_lt (priv_y v) (Number 0) then js_neg (priv_y v) else priv_y v)
       (if js_lt (priv_Z v) (Number 0) then js_neg (priv_z v) else priv_z v)"

definition clampSelf :: "ovec \<Rightarrow> jsval \<Rightarrow> jsval \<Rightarrow> ref outcome" where
  "clampSelf v low high =
     priv_set v (clamp (priv_x v) low high) (clamp (priv_y v) low high)
       (clamp (priv_z v) low high)"

definition minV :: "ovec \<Rightarrow> vec \<Rightarrow> ref outcome" where
  "minV v w =
     (let vz = js_or (vec_z w) (Number 0) in
      priv_set v
        (if js_lt (priv_x v) (vec_x w) then priv_x v else vec_x w)
        (if js_lt (priv_y v) (vec_y w) then priv_y v else vec_y w)
        (if js_lt (priv_z v) vz then priv_z v else vz))"

definition maxV :: "ovec \<Rightarrow> vec \<Rightarrow> ref outcome" where
  "maxV v w =
     (let vz = js_or (vec_z w) (Number 0) in
      priv_set v
        (if js_gt (priv_x v) (vec_x w) then priv_x v else vec_x w)
        (if js_gt (priv_y v) (vec_y w) then priv_y v else vec_y w)
        (if js_gt (priv_z v) vz then priv_z v else vz))"

definition floorSelf :: "ovec \<Rightarrow> ref outcome" where
  "floorSelf v =
     priv_set v (math_floor (priv_x v)) (math_floor (priv_y v)) (math_floor (priv_z v))"

definition ceilSelf :: "ovec \<Rightarrow> ref outcome" where
  "ceilSelf v =
     priv_set v (math_ceil (priv_x v)) (math_ceil (priv_y v)) (math_ceil (priv_z v))"

definition negateSelf :: "ovec \<Rightarrow> ref outcome" where
  "negateSelf v = priv_set v (js_neg (priv_x v)) (js_neg (priv_y v)) (js_neg (priv_z v))"

definition copy :: "ovec \<Rightarrow> vec \<Rightarrow> ref outcome" where
  "copy v w = priv_set v (vec_x w) (vec_y w) (js_or (vec_z w) (Number 0))"

definition perp :: "ovec \<Rightarrow> ref outcome" where
  "perp v = priv_set v (priv_y v) (js_neg (priv_x v)) (priv_z v)"

text \<open>\<open>rotate(angle, v)\<close>: the pivot \<open>v\<close> is a vector when \<open>typeof v === "object"\<close>.\<close>

definition rotate :: "ovec \<Rightarrow> jsval \<Rightarrow> vec option \<Rightarrow> ref outcome" where
  "rotate v angle pivot =
     (let cx = (case pivot of None \<Rightarrow> Number 0 | Some p \<Rightarrow> vec_x p);
          cy = (case pivot of None \<Rightarrow> Number 0 | Some p \<Rightarrow> vec_y p);
          x = js_sub (get_x v) cx;
          y = js_sub (get_y v) cy;
          c = math_cos angle;
          s = math_sin angle
      in priv_set v
           (js_add (js_sub (js_mul x c) (js_mul y s)) cx)
           (js_add (js_add (js_mul x s) (js_mul y c)) cy)
           (get_z v))"

definition cross :: "ovec \<Rightarrow> vec \<Rightarrow> ref outcome" where
  "cross v w =
     (let ax = priv_x v; ay = priv_y v; az = priv_z v;
          bx = vec_x w; by = vec_y w; bz = vec_z w
      in priv_set v
           (js_sub (js_mul ay bz) (js_mul az by))
           (js_sub (js_mul az bx) (js_mul ax bz))
           (js_sub (js_mul ax by) (js_mul ay bx)))"

definition lerp :: "ovec \<Rightarrow> vec \<Rightarrow> jsval \<Rightarrow> ref outcome" where
  "lerp v w alpha =
     priv_set v
       (js_add (priv_x v) (js_mul (js_sub (vec_x w) (priv_x v)) alpha))
       (js_add (priv_y v) (js_mul (js_sub (vec_y w) (priv_y v)) alpha))
       (js_add (priv_z v) (js_mul (js_sub (vec_z w) (priv_z v)) alpha))"

definition moveTowards :: "ovec \<Rightarrow> vec \<Rightarrow> jsval \<Rightarrow> ref outcome" where
  "moveTowards v target step =
     (let angle = math_atan2 (js_sub (vec_y target) (priv_y v))
                    (js_sub (vec_x target) (priv_x v));
          dx = js_sub (priv_x v) (vec_x target);
          dy = js_sub (priv_y v) (vec_y target);
          distance = math_sqrt (js_add (js_mul dx dx) (js_mul dy dy))
      in if strict_eq distance (Number 0)
            \<or> (js_ge step (Number 0) \<and> js_le distance (js_mul step step))
         then (Returned Target, v, [])
         else priv_set v
                (js_add (priv_x v) (js_mul (math_cos angle) step))
                (js_add (priv_y v) (js_mul (math_sin angle) step))
                (priv_z v))"

subsection \<open>The methods that only read\<close>

definition equals :: "ovec \<Rightarrow> vec \<Rightarrow> bool" where
  "equals v w \<longleftrightarrow>
     strict_eq (priv_x v) (vec_x w) \<and> strict_eq (priv_y v) (vec_y w)
     \<and> strict_eq (priv_z v) (js_or (vec_z w) (priv_z v))"

definition dot :: "ovec \<Rightarrow> vec \<Rightarrow> jsval" where
  "dot v w =
     js_add (js_add (js_mul (priv_x v) (vec_x w)) (js_mul (priv_y v) (vec_y w)))
       (js_mul (priv_z v) (js_or (vec_z w) (Number 1)))"

text \<open>An observable vector passed as the argument of a method is read by its getters.\<close>

definition as_vec :: "ovec \<Rightarrow> vec" where
  "as_vec v = \<lparr>vec_x = get_x v, vec_y = get_y v, vec_z = get_z v\<rparr>"

subsection \<open>Cloning through the pool\<close>

text \<open>
  Modelled from the spec: \<open>pool.pull\<close> (\<open>system/pooling.js\<close> is not among the sources).
  "\<open>pull(tag, ...args)\<close> either reuses a released instance of that tag or constructs a new
  one, and must re-initialize pooled instances via a reset hook equivalent to the
  constructor's muted (non-notifying) path". The pool of the tag \<open>"ObservableVector3d"\<close>
  is the list of its released instances; the result is the instance, or the error, and
  the pool that is left.
\<close>

definition pool_pull ::
  "ovec list \<Rightarrow> jsval \<Rightarrow> jsval \<Rightarrow> jsval \<Rightarrow> settings option
    \<Rightarrow> (ovec completion \<times> invocation list) \<times> ovec list" where
  "pool_pull pool x y z st =
     (case pool of
        [] \<Rightarrow> (constructor x y z st, [])
      | r # rest \<Rightarrow>
          (case onResetEvent r x y z st of
             (Threw e, r1, cs) \<Rightarrow> ((Threw e, cs), rest)
           | (Returned t, r1, cs) \<Rightarrow> ((Returned r1, cs), rest)))"

text \<open>
  \<open>clone()\<close>: the settings object has the key \<open>onUpdate\<close> only, so \<open>settings.scope\<close> is
  \<open>undefined\<close>.
\<close>

definition clone ::
  "ovec \<Rightarrow> ovec list \<Rightarrow> (ovec completion \<times> invocation list) \<times> ovec list" where
  "clone v pool =
     pool_pull pool (priv_x v) (priv_y v) (priv_z v)
       (Some \<lparr>settings_onUpdate = onUpdate v, settings_scope = ScUndefined\<rparr>)"

subsection \<open>The state of the binding\<close>

text \<open>A vector is bound when its \<open>onUpdate\<close> field holds a function.\<close>

definition bound :: "ovec \<Rightarrow> bool" where
  "bound v = (case onUpdate v of NotFunction \<Rightarrow> False | Function f \<Rightarrow> True)"

section \<open>Callbacks and vectors of the test suite\<close>

text \<open>The test's \<open>callback\<close> stores its arguments and returns nothing.\<close>

definition test_callback :: callback where
  "test_callback sc a b c d e f = NoObject"

text \<open>The test's \<open>callback_with_ret\<close> returns \<open>{x: 10, y: 10, z: 10}\<close>.\<close>

definition callback_with_ret :: callback where
  "callback_with_ret sc a b c d e f =
     Object [''x'' \<mapsto> Number 10, ''y'' \<mapsto> Number 10, ''z'' \<mapsto> Number 10]"

text \<open>A callback that returns \<open>{x: 7}\<close>, an object with one of the three keys.\<close>

definition callback_with_x :: callback where
  "callback_with_x sc a b c d e f = Object [''x'' \<mapsto> Number 7]"

text \<open>The vector \<open>(x, y, z)\<close> with the callback \<open>cb\<close> bound and no scope given.\<close>

definition observable :: "real \<Rightarrow> real \<Rightarrow> real \<Rightarrow> callback \<Rightarrow> ovec" where
  "observable x y z cb =
     \<lparr>priv_x = Number x, priv_y = Number y, priv_z = Number z,
      onUpdate = Function cb, scope = ScNull\<rparr>"

definition Vector3d :: "real \<Rightarrow> real \<Rightarrow> real \<Rightarrow> vec" where
  "Vector3d x y z = \<lparr>vec_x = Number x, vec_y = Number y, vec_z = Number z\<rparr>"

text \<open>A 2D vector has no \<open>z\<close>.\<close>

definition Vector2d :: "real \<Rightarrow> real \<Rightarrow> vec" where
  "Vector2d x y = \<lparr>vec_x = Number x, vec_y = Number y, vec_z = Undefined\<rparr>"

section \<open>Auxiliary facts\<close>

lemma js_or_zero_cases:
  "js_or z (Number 0) = (case z of Number r \<Rightarrow> z | _ \<Rightarrow> Number 0)"
  by (cases z) (auto simp: js_or_def)

lemma reset_z_cases:
  "js_or (default_arg z (Number 0)) (Number 0) = (case z of Number r \<Rightarrow> z | _ \<Rightarrow> Number 0)"
  by (cases z) (auto simp: js_or_def default_arg_def)

lemma key_in_truthy: "key_in k ret \<Longrightarrow> truthy_ret ret"
  by (cases ret) simp_all

text \<open>The batch write on a bound vector, with the test on the returned object reduced.\<close>

lemma priv_set_bound:
  assumes "onUpdate v = Function cb"
  shows "priv_set v x y z =
     (Returned This,
      (let ret = cb (scope v) x y z (priv_x v) (priv_y v) (priv_z v) in
       if key_in ''x'' ret \<and> key_in ''y'' ret \<and> key_in ''z'' ret
       then v\<lparr>priv_x := get_prop ret ''x'', priv_y := get_prop ret ''y'',
              priv_z := get_prop ret ''z''\<rparr>
       else v\<lparr>priv_x := x, priv_y := y, priv_z := js_or z (Number 0)\<rparr>),
      [\<lparr>inv_scope = scope v, newX = x, newY = y, newZ = z,
        oldX = priv_x v, oldY = priv_y v, oldZ = priv_z v\<rparr>])"
  using assms
  by (auto simp: priv_set_def call_onUpdate_def Let_def dest: key_in_truthy)

lemma priv_set_keeps_z:
  assumes "onUpdate v = Function cb"
    and "\<not> key_in ''z'' (cb (scope v) x y (Number r) (priv_x v) (priv_y v) (priv_z v))"
  shows "priv_z (after (priv_set v x y (Number r))) = Number r"
  using assms by (simp add: priv_set_bound after_def Let_def js_or_def)

text \<open>The reset entry point: a muted write, then \<open>setCallback\<close> when settings are given.\<close>

lemma onResetEvent_eq:
  "onResetEvent v x y z st =
     (case st of
        None \<Rightarrow>
          (Returned This,
           v\<lparr>priv_x := default_arg x (Number 0), priv_y := default_arg y (Number 0),
             priv_z := (case z of Number r \<Rightarrow> z | _ \<Rightarrow> Number 0)\<rparr>, [])
      | Some s \<Rightarrow>
          setCallback
            (v\<lparr>priv_x := default_arg x (Number 0), priv_y := default_arg y (Number 0),
               priv_z := (case z of Number r \<Rightarrow> z | _ \<Rightarrow> Number 0)\<rparr>)
            (settings_onUpdate s) (settings_scope s))"
proof (cases st)
  case None
  then show ?thesis
    by (simp add: onResetEvent_def setMuted_def reset_z_cases)
next
  case (Some s)
  then show ?thesis
    by (cases "settings_onUpdate s")
      (simp_all add: onResetEvent_def setMuted_def reset_z_cases setCallback_def)
qed

lemma setCallback_quiet: "notified (setCallback v fn sc) = []"
  by (cases fn) (simp_all add: setCallback_def notified_def)

lemma setCallback_bound: "bound v \<Longrightarrow> bound (after (setCallback v fn sc))"
  by (cases fn) (simp_all add: setCallback_def after_def bound_def)

lemma onResetEvent_bound: "bound v \<Longrightarrow> bound (after (onResetEvent v x y z st))"
proof (cases st)
  case None
  then show "bound v \<Longrightarrow> ?thesis"
    by (simp add: onResetEvent_eq after_def bound_def)
next
  case (Some s)
  assume "bound v"
  then have "bound (v\<lparr>priv_x := default_arg x (Number 0), priv_y := default_arg y (Number 0),
               priv_z := (case z of Number r \<Rightarrow> z | _ \<Rightarrow> Number 0)\<rparr>)"
    by (simp add: bound_def)
  then show ?thesis
    using Some by (simp add: onResetEvent_eq setCallback_bound)
qed

lemma priv_set_onUpdate: "onUpdate (after (priv_set v x y z)) = onUpdate v"
  by (cases "onUpdate v") (simp_all add: priv_set_def call_onUpdate_def after_def)

lemma setter_onUpdate:
  "onUpdate (after (set_x v a)) = onUpdate v"
  "onUpdate (after (set_y v a)) = onUpdate v"
  "onUpdate (after (set_z v a)) = onUpdate v"
  by (cases "onUpdate v"; simp add: set_x_def set_y_def set_z_def call_onUpdate_def after_def)+

text \<open>The vectors of the test suite are what the constructor builds.\<close>

lemma observable_constructed:
  "constructor (Number x) (Number y) (Number z)
     (Some \<lparr>settings_onUpdate = Function cb, settings_scope = ScUndefined\<rparr>) =
   (Returned (observable x y z cb), [])"
  by (simp add: constructor_def Vector3d_constructor_def onResetEvent_eq setCallback_def
      default_scope_def default_arg_def blank_def observable_def)

lemma sqrt_25: "sqrt 25 = 5"
proof -
  have "sqrt ((5::real)\<^sup>2) = 5" by simp
  then show ?thesis by simp
qed

section \<open>The batch write\<close>

text \<open>
  C1, as the code has it. On a vector with a callback bound, the batch write
  \<open>_set(x, y, z)\<close> returns \<open>this\<close> and calls the callback exactly once, on the bound
  scope, with the attempted coordinates followed by the old ones. When the returned
  object has the three keys \<open>x\<close>, \<open>y\<close> and \<open>z\<close>, the three fields are taken from it.
  Otherwise, a return with some of the keys included, \<open>x\<close> and \<open>y\<close> are committed as
  attempted, and \<open>z\<close> is committed as attempted when it is a number other than \<open>NaN\<close>
  and as \<open>0\<close> when it is \<open>undefined\<close> or \<open>NaN\<close> (\<open>this._z = z || 0\<close>).
\<close>

theorem batch_write_commit:
  assumes "onUpdate v = Function cb"
    and "cb (scope v) x y z (priv_x v) (priv_y v) (priv_z v) = ret"
  shows "completion_of (priv_set v x y z) = Returned This
       \<and> notified (priv_set v x y z) =
           [\<lparr>inv_scope = scope v, newX = x, newY = y, newZ = z,
             oldX = priv_x v, oldY = priv_y v, oldZ = priv_z v\<rparr>]
       \<and> after (priv_set v x y z) =
           (if key_in ''x'' ret \<and> key_in ''y'' ret \<and> key_in ''z'' ret
            then v\<lparr>priv_x := get_prop ret ''x'', priv_y := get_prop ret ''y'',
                   priv_z := get_prop ret ''z''\<rparr>
            else v\<lparr>priv_x := x, priv_y := y,
                   priv_z := (case z of Number r \<Rightarrow> z | _ \<Rightarrow> Number 0)\<rparr>)"
  using assms
  by (simp add: priv_set_bound completion_of_def after_def notified_def js_or_zero_cases)

text \<open>
  The example of the spec: \<open>a.add(Vector3d(10, 10, 10))\<close> on \<open>a = (10, 100, 20)\<close> makes one
  call with \<open>(20, 110, 30)\<close> and \<open>(10, 100, 20)\<close>. A callback returning the three keys
  overrides the write, one returning \<open>x\<close> alone is ignored.
\<close>

theorem batch_write_commit_witness:
  "onUpdate (observable 10 100 20 test_callback) = Function test_callback
   \<and> completion_of (add (observable 10 100 20 test_callback) (Vector3d 10 10 10)) = Returned This
   \<and> notified (add (observable 10 100 20 test_callback) (Vector3d 10 10 10)) =
       [\<lparr>inv_scope = ScNull, newX = Number 20, newY = Number 110, newZ = Number 30,
         oldX = Number 10, oldY = Number 100, oldZ = Number 20\<rparr>]
   \<and> after (add (observable 10 100 20 test_callback) (Vector3d 10 10 10)) =
       observable 20 110 30 test_callback
   \<and> after (priv_set (observable 0 0 0 callback_with_ret) (Number 100) (Number 100) (Number 100)) =
       observable 10 10 10 callback_with_ret
   \<and> after (priv_set (observable 1 2 3 callback_with_x) (Number 4) (Number 5) (Number 6)) =
       observable 4 5 6 callback_with_x"
  using batch_write_commit [of "observable 10 100 20 test_callback" test_callback
      "Number 20" "Number 110" "Number 30" NoObject]
    batch_write_commit [of "observable 0 0 0 callback_with_ret" callback_with_ret
      "Number 100" "Number 100" "Number 100"
      "Object [''x'' \<mapsto> Number 10, ''y'' \<mapsto> Number 10, ''z'' \<mapsto> Number 10]"]
    batch_write_commit [of "observable 1 2 3 callback_with_x" callback_with_x
      "Number 4" "Number 5" "Number 6" "Object [''x'' \<mapsto> Number 7]"]
  by (simp add: add_def observable_def Vector3d_def test_callback_def callback_with_ret_def
      callback_with_x_def js_or_def)

text \<open>
  C1 as stated fails: the callback returns nothing, and the attempted \<open>z\<close> is not what is
  committed. \<open>_set(1, 2, undefined)\<close> commits \<open>z = 0\<close>; \<open>lerp\<close> towards a 2D vector attempts
  \<open>z = NaN\<close>, which the callback is told, and commits \<open>z = 0\<close>.
\<close>

theorem batch_write_verbatim_counterexample:
  "test_callback ScNull (Number 1) (Number 2) Undefined (Number 10) (Number 100) (Number 20)
     = NoObject
   \<and> priv_z (after (priv_set (observable 10 100 20 test_callback)
         (Number 1) (Number 2) Undefined)) = Number 0
   \<and> notified (lerp (observable 1 2 3 test_callback) (Vector2d 5 5) (Number (1/2))) =
       [\<lparr>inv_scope = ScNull, newX = Number 3, newY = Number (7/2), newZ = NaN,
         oldX = Number 1, oldY = Number 2, oldZ = Number 3\<rparr>]
   \<and> after (lerp (observable 1 2 3 test_callback) (Vector2d 5 5) (Number (1/2))) =
       observable 3 (7/2) 0 test_callback
   \<and> Number 0 \<noteq> NaN \<and> Number 0 \<noteq> Undefined"
  by (simp add: priv_set_def lerp_def call_onUpdate_def observable_def Vector2d_def
      test_callback_def js_or_def after_def notified_def)

section \<open>The single-coordinate write\<close>

text \<open>
  C2. On a vector with a callback bound, the write \<open>a.x = val\<close> calls the callback exactly
  once, on the bound scope, with \<open>(val, a.y, a.z, oldX, oldY, oldZ)\<close>; the committed
  \<open>x\<close> is the \<open>x\<close> of the returned object when it has that key and \<open>val\<close> otherwise; the
  fields \<open>_y\<close> and \<open>_z\<close>, the callback and the scope are as before. The same holds for the
  \<open>y\<close> and \<open>z\<close> setters.
\<close>

theorem coordinate_setter_notifies_once:
  assumes "onUpdate v = Function cb"
  shows "set_x v val =
           (Returned (),
            v\<lparr>priv_x :=
                (case cb (scope v) val (priv_y v) (priv_z v) (priv_x v) (priv_y v) (priv_z v) of
                   NoObject \<Rightarrow> val
                 | Object m \<Rightarrow> (case m ''x'' of None \<Rightarrow> val | Some k \<Rightarrow> k))\<rparr>,
            [\<lparr>inv_scope = scope v, newX = val, newY = priv_y v, newZ = priv_z v,
              oldX = priv_x v, oldY = priv_y v, oldZ = priv_z v\<rparr>])
       \<and> set_y v val =
           (Returned (),
            v\<lparr>priv_y :=
                (case cb (scope v) (priv_x v) val (priv_z v) (priv_x v) (priv_y v) (priv_z v) of
                   NoObject \<Rightarrow> val
                 | Object m \<Rightarrow> (case m ''y'' of None \<Rightarrow> val | Some k \<Rightarrow> k))\<rparr>,
            [\<lparr>inv_scope = scope v, newX = priv_x v, newY = val, newZ = priv_z v,
              oldX = priv_x v, oldY = priv_y v, oldZ = priv_z v\<rparr>])
       \<and> set_z v val =
           (Returned (),
            v\<lparr>priv_z :=
                (case cb (scope v) (priv_x v) (priv_y v) val (priv_x v) (priv_y v) (priv_z v) of
                   NoObject \<Rightarrow> val
                 | Object m \<Rightarrow> (case m ''z'' of None \<Rightarrow> val | Some k \<Rightarrow> k))\<rparr>,
            [\<lparr>inv_scope = scope v, newX = priv_x v, newY = priv_y v, newZ = val,
              oldX = priv_x v, oldY = priv_y v, oldZ = priv_z v\<rparr>])"
  using assms
  by (simp add: set_x_def set_y_def set_z_def call_onUpdate_def
      split: cbret.split option.split)

text \<open>
  With a callback that returns \<open>{x: 7}\<close>: writing \<open>x = 5\<close> commits \<open>7\<close>, writing \<open>y = 5\<close>
  commits \<open>5\<close>, and a written \<open>z\<close> is committed as it is, \<open>NaN\<close> included.
\<close>

theorem coordinate_setter_notifies_once_witness:
  "onUpdate (observable 1 2 3 callback_with_x) = Function callback_with_x
   \<and> set_x (observable 1 2 3 callback_with_x) (Number 5) =
       (Returned (), observable 7 2 3 callback_with_x,
        [\<lparr>inv_scope = ScNull, newX = Number 5, newY = Number 2, newZ = Number 3,
          oldX = Number 1, oldY = Number 2, oldZ = Number 3\<rparr>])
   \<and> set_y (observable 1 2 3 callback_with_x) (Number 5) =
       (Returned (), observable 1 5 3 callback_with_x,
        [\<lparr>inv_scope = ScNull, newX = Number 1, newY = Number 5, newZ = Number 3,
          oldX = Number 1, oldY = Number 2, oldZ = Number 3\<rparr>])
   \<and> set_z (observable 1 2 3 callback_with_x) NaN =
       (Returned (),
        (observable 1 2 3 callback_with_x)\<lparr>priv_z := NaN\<rparr>,
        [\<lparr>inv_scope = ScNull, newX = Number 1, newY = Number 2, newZ = NaN,
          oldX = Number 1, oldY = Number 2, oldZ = Number 3\<rparr>])"
  using coordinate_setter_notifies_once [of "observable 1 2 3 callback_with_x" callback_with_x
      "Number 5"]
    coordinate_setter_notifies_once [of "observable 1 2 3 callback_with_x" callback_with_x NaN]
  by (simp add: observable_def callback_with_x_def)

section \<open>The callback is mandatory\<close>

text \<open>
  C3. Constructing without a settings object, or with one whose \<open>onUpdate\<close> is not a
  function, throws before any callback is called, and no object results; with a function
  the constructor returns a bound vector. \<open>setCallback\<close> with a value that is not a
  function throws and leaves the vector as it was; with a function it replaces the
  callback and the scope, \<open>null\<close> standing for a scope that is not given. A bound vector
  stays bound through \<open>setCallback\<close>, the reset entry point, the muted write, the batch
  write and the three setters, however they complete.
\<close>

theorem callback_is_mandatory:
  "constructor x y z None = (Threw (Error ''undefined `onUpdate` callback''), [])
   \<and> (settings_onUpdate s = NotFunction \<longrightarrow>
        constructor x y z (Some s) = (Threw (Error ''invalid `onUpdate` callback''), []))
   \<and> (settings_onUpdate s = Function f \<longrightarrow>
        (\<exists>c. constructor x y z (Some s) = (Returned c, []) \<and> onUpdate c = Function f))
   \<and> setCallback v NotFunction sc = (Threw (Error ''invalid `onUpdate` callback''), v, [])
   \<and> setCallback v (Function f) sc =
        (Returned This,
         v\<lparr>onUpdate := Function f, scope := (if sc = ScUndefined then ScNull else sc)\<rparr>, [])
   \<and> (bound v \<longrightarrow>
        bound (after (setCallback v fn sc))
      \<and> bound (after (onResetEvent v x y z st))
      \<and> bound (after (setMuted v x y z))
      \<and> bound (after (priv_set v x y z))
      \<and> bound (after (set_x v x)) \<and> bound (after (set_y v y)) \<and> bound (after (set_z v z)))"
proof -
  have ctor: "constructor x y z None = (Threw (Error ''undefined `onUpdate` callback''), [])"
    "settings_onUpdate s = NotFunction \<longrightarrow>
        constructor x y z (Some s) = (Threw (Error ''invalid `onUpdate` callback''), [])"
    "settings_onUpdate s = Function f \<longrightarrow>
        (\<exists>c. constructor x y z (Some s) = (Returned c, []) \<and> onUpdate c = Function f)"
    by (simp_all add: constructor_def Vector3d_constructor_def onResetEvent_eq setCallback_def)
  have rebind: "setCallback v NotFunction sc =
      (Threw (Error ''invalid `onUpdate` callback''), v, [])"
    "setCallback v (Function f) sc =
        (Returned This,
         v\<lparr>onUpdate := Function f, scope := (if sc = ScUndefined then ScNull else sc)\<rparr>, [])"
    by (simp_all add: setCallback_def default_scope_def)
  have stays: "bound (after (setCallback v fn sc))
      \<and> bound (after (onResetEvent v x y z st))
      \<and> bound (after (setMuted v x y z))
      \<and> bound (after (priv_set v x y z))
      \<and> bound (after (set_x v x)) \<and> bound (after (set_y v y)) \<and> bound (after (set_z v z))"
    if "bound v"
  proof -
    have "bound (after (setMuted v x y z))"
      using that by (simp add: setMuted_def after_def bound_def)
    moreover have "bound u" if "onUpdate u = onUpdate v" for u
      using \<open>bound v\<close> that by (simp add: bound_def)
    ultimately show ?thesis
      using that
      by (simp add: setCallback_bound onResetEvent_bound priv_set_onUpdate setter_onUpdate)
  qed
  show ?thesis
    using ctor rebind stays by blast
qed

theorem callback_is_mandatory_witness:
  "constructor (Number 1) (Number 2) (Number 3) None =
     (Threw (Error ''undefined `onUpdate` callback''), [])
   \<and> settings_onUpdate \<lparr>settings_onUpdate = NotFunction, settings_scope = ScUndefined\<rparr>
       = NotFunction
   \<and> constructor (Number 1) (Number 2) (Number 3)
       (Some \<lparr>settings_onUpdate = NotFunction, settings_scope = ScUndefined\<rparr>) =
     (Threw (Error ''invalid `onUpdate` callback''), [])
   \<and> bound (observable 1 2 3 test_callback)
   \<and> setCallback (observable 1 2 3 test_callback) NotFunction ScUndefined =
       (Threw (Error ''invalid `onUpdate` callback''), observable 1 2 3 test_callback, [])
   \<and> bound (after (setCallback (observable 1 2 3 test_callback) NotFunction ScUndefined))
   \<and> after (setCallback (observable 1 2 3 test_callback) (Function callback_with_ret)
         (ScObject 1)) =
       (observable 1 2 3 callback_with_ret)\<lparr>scope := ScObject 1\<rparr>"
  using callback_is_mandatory [of "Number 1" "Number 2" "Number 3"
      "\<lparr>settings_onUpdate = NotFunction, settings_scope = ScUndefined\<rparr>" test_callback
      "observable 1 2 3 test_callback" ScUndefined NotFunction None]
    callback_is_mandatory [of "Number 1" "Number 2" "Number 3"
      "\<lparr>settings_onUpdate = NotFunction, settings_scope = ScUndefined\<rparr>" callback_with_ret
      "observable 1 2 3 test_callback" "ScObject 1" NotFunction None]
  by (simp add: bound_def observable_def after_def)

section \<open>Moving towards a target\<close>

text \<open>
  C4, on the code. From \<open>(0, 0, 0)\<close> with target \<open>(1, 0, 0)\<close> and step \<open>2\<close>, the vector is
  within the step and the claim has it snap to the target: \<open>moveTowards\<close> returns the
  target object, and the receiver is as before, with no callback called. From
  \<open>(0, 0, 0)\<close> with target \<open>(3, 4, 0)\<close> and step \<open>3\<close>, the distance \<open>5\<close> is more than the
  step, but the test compares it with \<open>step * step = 9\<close>: the target is returned again
  and the receiver does not move.
\<close>

theorem moveTowards_returns_target_unmoved:
  "moveTowards (observable 0 0 0 test_callback) (Vector3d 1 0 0) (Number 2) =
     (Returned Target, observable 0 0 0 test_callback, [])
   \<and> priv_x (observable 0 0 0 test_callback) \<noteq> vec_x (Vector3d 1 0 0)
   \<and> moveTowards (observable 0 0 0 test_callback) (Vector3d 3 4 0) (Number 3) =
     (Returned Target, observable 0 0 0 test_callback, [])"
  by (simp add: moveTowards_def observable_def Vector3d_def Let_def sqrt_25)

section \<open>A missing \<open>z\<close> on the argument\<close>

text \<open>
  C5. For an argument without a \<open>z\<close>, \<open>add\<close> and \<open>sub\<close> write \<open>this._z + 0\<close> and
  \<open>this._z - 0\<close>, \<open>scaleV\<close> writes \<open>this._z * 1\<close> and \<open>dot\<close> adds \<open>this._z * 1\<close>. When
  \<open>this._z\<close> is a number and the callback returns no \<open>z\<close>, the \<open>z\<close> of the vector is the
  same after \<open>add\<close>, \<open>sub\<close> and \<open>scaleV\<close>.
\<close>

theorem missing_z_defaults:
  assumes "vec_z w = Undefined"
  shows "add v w =
           priv_set v (js_add (priv_x v) (vec_x w)) (js_add (priv_y v) (vec_y w))
             (js_add (priv_z v) (Number 0))
       \<and> sub v w =
           priv_set v (js_sub (priv_x v) (vec_x w)) (js_sub (priv_y v) (vec_y w))
             (js_sub (priv_z v) (Number 0))
       \<and> scaleV v w =
           priv_set v (js_mul (priv_x v) (vec_x w)) (js_mul (priv_y v) (vec_y w))
             (js_mul (priv_z v) (Number 1))
       \<and> dot v w =
           js_add (js_add (js_mul (priv_x v) (vec_x w)) (js_mul (priv_y v) (vec_y w)))
             (js_mul (priv_z v) (Number 1))
       \<and> (priv_z v = Number r \<and> onUpdate v = Function cb
            \<and> (\<forall>a b. \<not> key_in ''z''
                  (cb (scope v) a b (Number r) (priv_x v) (priv_y v) (Number r)))
          \<longrightarrow> priv_z (after (add v w)) = Number r
            \<and> priv_z (after (sub v w)) = Number r
            \<and> priv_z (after (scaleV v w)) = Number r)"
proof -
  have ops: "add v w =
           priv_set v (js_add (priv_x v) (vec_x w)) (js_add (priv_y v) (vec_y w))
             (js_add (priv_z v) (Number 0))"
    "sub v w =
           priv_set v (js_sub (priv_x v) (vec_x w)) (js_sub (priv_y v) (vec_y w))
             (js_sub (priv_z v) (Number 0))"
    "scaleV v w =
           priv_set v (js_mul (priv_x v) (vec_x w)) (js_mul (priv_y v) (vec_y w))
             (js_mul (priv_z v) (Number 1))"
    "dot v w =
           js_add (js_add (js_mul (priv_x v) (vec_x w)) (js_mul (priv_y v) (vec_y w)))
             (js_mul (priv_z v) (Number 1))"
    using assms by (simp_all add: add_def sub_def scaleV_def dot_def js_or_def)
  have kept: "priv_z (after (add v w)) = Number r
            \<and> priv_z (after (sub v w)) = Number r
            \<and> priv_z (after (scaleV v w)) = Number r"
    if z: "priv_z v = Number r" and cb: "onUpdate v = Function cb"
      and nz: "\<forall>a b. \<not> key_in ''z''
                  (cb (scope v) a b (Number r) (priv_x v) (priv_y v) (Number r))"
  proof -
    have "priv_z (after (priv_set v a b (Number r))) = Number r" for a b
      using priv_set_keeps_z [OF cb, of a b r] nz z by simp
    then show ?thesis
      by (simp add: ops z)
  qed
  show ?thesis
    using ops kept by blast
qed

theorem missing_z_defaults_witness:
  "vec_z (Vector2d 10 10) = Undefined
   \<and> after (add (observable 1 2 3 test_callback) (Vector2d 10 10)) =
       observable 11 12 3 test_callback
   \<and> after (sub (observable 1 2 3 test_callback) (Vector2d 10 10)) =
       observable (-9) (-8) 3 test_callback
   \<and> after (scaleV (observable 1 2 3 test_callback) (Vector2d 10 10)) =
       observable 10 20 3 test_callback
   \<and> dot (observable 1 2 3 test_callback) (Vector2d 10 10) = Number 33"
  using missing_z_defaults [of "Vector2d 10 10" "observable 1 2 3 test_callback" 3 test_callback]
  by (simp add: priv_set_bound after_def observable_def Vector2d_def test_callback_def
      js_or_def)

section \<open>Equality\<close>

text \<open>
  C6, on the code. The argument \<open>(1, 2, 0)\<close> carries a \<open>z\<close>, which is not the \<open>z\<close> of
  \<open>(1, 2, 3)\<close>, and \<open>equals\<close> returns true: \<open>v.z || this._z\<close> takes a \<open>z\<close> of \<open>0\<close> for a
  missing one.
\<close>

theorem equals_ignores_zero_z:
  "equals (observable 1 2 3 test_callback) (Vector3d 1 2 0)
   \<and> \<not> strict_eq (priv_z (observable 1 2 3 test_callback)) (vec_z (Vector3d 1 2 0))"
  by (simp add: equals_def observable_def Vector3d_def js_or_def)

section \<open>The muted paths\<close>

text \<open>
  C7. \<open>setMuted\<close> writes the coordinates (\<open>z || 0\<close> for \<open>z\<close>) and calls no callback; the
  reset entry point and the constructor call none either, however they complete.
  Without settings, \<open>onResetEvent\<close> resets the coordinates and keeps the callback and the
  scope. With settings whose \<open>onUpdate\<close> is a function, it binds that function and the
  scope of the settings, \<open>null\<close> when they give none. With settings whose \<open>onUpdate\<close> is
  not a function it throws after the coordinates are reset, and the binding is kept.
\<close>

theorem muted_paths_do_not_notify:
  "setMuted v x y z =
     (Returned This,
      v\<lparr>priv_x := x, priv_y := y, priv_z := (case z of Number r \<Rightarrow> z | _ \<Rightarrow> Number 0)\<rparr>, [])
   \<and> notified (onResetEvent v x y z st) = []
   \<and> snd (constructor x y z st) = []
   \<and> onResetEvent v x y z None =
       (Returned This,
        v\<lparr>priv_x := default_arg x (Number 0), priv_y := default_arg y (Number 0),
          priv_z := (case z of Number r \<Rightarrow> z | _ \<Rightarrow> Number 0)\<rparr>, [])
   \<and> (settings_onUpdate s = Function f \<longrightarrow>
        onResetEvent v x y z (Some s) =
          (Returned This,
           v\<lparr>priv_x := default_arg x (Number 0), priv_y := default_arg y (Number 0),
             priv_z := (case z of Number r \<Rightarrow> z | _ \<Rightarrow> Number 0),
             onUpdate := Function f,
             scope := (if settings_scope s = ScUndefined then ScNull else settings_scope s)\<rparr>,
           []))
   \<and> (settings_onUpdate s = NotFunction \<longrightarrow>
        onResetEvent v x y z (Some s) =
          (Threw (Error ''invalid `onUpdate` callback''),
           v\<lparr>priv_x := default_arg x (Number 0), priv_y := default_arg y (Number 0),
             priv_z := (case z of Number r \<Rightarrow> z | _ \<Rightarrow> Number 0)\<rparr>, []))"
proof -
  have "notified (onResetEvent v x y z st) = []"
    by (cases st) (simp_all add: onResetEvent_eq setCallback_quiet, simp add: notified_def)
  moreover have "snd (constructor x y z st) = []"
  proof (cases st)
    case None
    then show ?thesis
      by (simp add: constructor_def Vector3d_constructor_def onResetEvent_eq)
  next
    case (Some t)
    then show ?thesis
      by (cases "settings_onUpdate t")
        (simp_all add: constructor_def Vector3d_constructor_def onResetEvent_eq setCallback_def)
  qed
  ultimately show ?thesis
    by (simp add: setMuted_def js_or_zero_cases onResetEvent_eq setCallback_def
        default_scope_def)
qed

theorem muted_paths_do_not_notify_witness:
  "onResetEvent (observable 1 2 3 test_callback) (Number 4) (Number 5) (Number 6) None =
     (Returned This, observable 4 5 6 test_callback, [])
   \<and> settings_onUpdate
        \<lparr>settings_onUpdate = Function callback_with_ret, settings_scope = ScUndefined\<rparr>
       = Function callback_with_ret
   \<and> onResetEvent (observable 1 2 3 test_callback) (Number 4) (Number 5) (Number 6)
       (Some \<lparr>settings_onUpdate = Function callback_with_ret, settings_scope = ScUndefined\<rparr>) =
     (Returned This, observable 4 5 6 callback_with_ret, [])
   \<and> snd (constructor (Number 1) (Number 2) (Number 3)
        (Some \<lparr>settings_onUpdate = Function test_callback, settings_scope = ScUndefined\<rparr>)) = []"
  using muted_paths_do_not_notify [of "observable 1 2 3 test_callback" "Number 4" "Number 5"
      "Number 6" None
      "\<lparr>settings_onUpdate = Function callback_with_ret, settings_scope = ScUndefined\<rparr>"
      callback_with_ret]
    muted_paths_do_not_notify [of "observable 1 2 3 test_callback" "Number 1" "Number 2"
      "Number 3"
      "Some \<lparr>settings_onUpdate = Function test_callback, settings_scope = ScUndefined\<rparr>"
      "\<lparr>settings_onUpdate = Function callback_with_ret, settings_scope = ScUndefined\<rparr>"
      callback_with_ret]
  by (simp add: observable_def default_arg_def)

section \<open>Cloning\<close>

text \<open>What \<open>clone\<close> gives on a bound vector, from an empty pool as from a recycled instance.\<close>

lemma clone_eq:
  assumes "onUpdate v = Function cb"
  shows "clone v pool =
           ((Returned
               \<lparr>priv_x = default_arg (priv_x v) (Number 0),
                priv_y = default_arg (priv_y v) (Number 0),
                priv_z = (case priv_z v of Number r \<Rightarrow> priv_z v | _ \<Rightarrow> Number 0),
                onUpdate = Function cb, scope = ScNull\<rparr>, []),
            tl pool)"
proof (cases pool)
  case Nil
  then show ?thesis
    using assms
    by (simp add: clone_def pool_pull_def constructor_def Vector3d_constructor_def
        onResetEvent_eq setCallback_def default_scope_def blank_def default_arg_def
        split: jsval.split)
next
  case (Cons r rest)
  then show ?thesis
    using assms
    by (cases r)
      (simp add: clone_def pool_pull_def onResetEvent_eq setCallback_def default_scope_def)
qed

text \<open>
  C8, as the code has it. For a bound vector, \<open>clone\<close> calls no callback, takes the
  recycled instance out of the pool when there is one, and gives the vector whose \<open>x\<close>
  and \<open>y\<close> are those of the original (\<open>0\<close> for \<open>undefined\<close>), whose \<open>z\<close> is \<open>z || 0\<close>
  (that of the original when it is a number other than \<open>NaN\<close>, \<open>0\<close> when it is \<open>NaN\<close> or
  \<open>undefined\<close>), with the callback of the original and the scope \<open>null\<close> whatever the
  scope of the original. The clone \<open>equals\<close> the original exactly when the \<open>x\<close> and the
  \<open>y\<close> of the original are numbers other than \<open>NaN\<close>. When the three coordinates are such
  numbers, the clone has the same three coordinates and \<open>equals\<close> the original.
\<close>

theorem clone_of_bound_vector:
  assumes "onUpdate v = Function cb"
  shows "clone v pool =
           ((Returned
               \<lparr>priv_x = default_arg (priv_x v) (Number 0),
                priv_y = default_arg (priv_y v) (Number 0),
                priv_z = (case priv_z v of Number r \<Rightarrow> priv_z v | _ \<Rightarrow> Number 0),
                onUpdate = onUpdate v, scope = ScNull\<rparr>, []),
            tl pool)
       \<and> (equals
             \<lparr>priv_x = default_arg (priv_x v) (Number 0),
              priv_y = default_arg (priv_y v) (Number 0),
              priv_z = (case priv_z v of Number r \<Rightarrow> priv_z v | _ \<Rightarrow> Number 0),
              onUpdate = onUpdate v, scope = ScNull\<rparr> (as_vec v)
            \<longleftrightarrow> is_number (priv_x v) \<and> is_number (priv_y v))
       \<and> (priv_x v = Number a \<and> priv_y v = Number b \<and> priv_z v = Number c \<longrightarrow>
            clone v pool = ((Returned (observable a b c cb), []), tl pool)
          \<and> priv_x (observable a b c cb) = priv_x v
          \<and> priv_y (observable a b c cb) = priv_y v
          \<and> priv_z (observable a b c cb) = priv_z v
          \<and> equals (observable a b c cb) (as_vec v))"
proof -
  have eq: "equals
             \<lparr>priv_x = default_arg (priv_x v) (Number 0),
              priv_y = default_arg (priv_y v) (Number 0),
              priv_z = (case priv_z v of Number r \<Rightarrow> priv_z v | _ \<Rightarrow> Number 0),
              onUpdate = onUpdate v, scope = ScNull\<rparr> (as_vec v)
            \<longleftrightarrow> is_number (priv_x v) \<and> is_number (priv_y v)"
    by (cases "priv_x v"; cases "priv_y v"; cases "priv_z v")
      (simp_all add: equals_def as_vec_def get_x_def get_y_def get_z_def default_arg_def
        js_or_def)
  have num: "clone v pool = ((Returned (observable a b c cb), []), tl pool)
          \<and> priv_x (observable a b c cb) = priv_x v
          \<and> priv_y (observable a b c cb) = priv_y v
          \<and> priv_z (observable a b c cb) = priv_z v
          \<and> equals (observable a b c cb) (as_vec v)"
    if "priv_x v = Number a \<and> priv_y v = Number b \<and> priv_z v = Number c"
    using that assms
    by (simp add: clone_eq [OF assms] observable_def default_arg_def equals_def as_vec_def
        get_x_def get_y_def get_z_def js_or_def)
  show ?thesis
    using clone_eq [OF assms, of pool] eq num assms by simp
qed

text \<open>
  A vector \<open>(1, 2, 0)\<close> with a scope: the clone from the empty pool and the clone from a
  pool of two released instances are \<open>(1, 2, 0)\<close> with the same callback and the scope
  \<open>null\<close>, and the second released instance stays in the pool.
\<close>

theorem clone_of_bound_vector_witness:
  "onUpdate ((observable 1 2 0 test_callback)\<lparr>scope := ScObject 1\<rparr>) = Function test_callback
   \<and> clone ((observable 1 2 0 test_callback)\<lparr>scope := ScObject 1\<rparr>) [] =
       ((Returned (observable 1 2 0 test_callback), []), [])
   \<and> clone ((observable 1 2 0 test_callback)\<lparr>scope := ScObject 1\<rparr>)
        [observable 7 8 9 callback_with_ret, observable 4 5 6 callback_with_x] =
       ((Returned (observable 1 2 0 test_callback), []), [observable 4 5 6 callback_with_x])
   \<and> equals (observable 1 2 0 test_callback)
       (as_vec ((observable 1 2 0 test_callback)\<lparr>scope := ScObject 1\<rparr>))
   \<and> onUpdate (observable 1 2 0 test_callback) =
       onUpdate ((observable 1 2 0 test_callback)\<lparr>scope := ScObject 1\<rparr>)
   \<and> scope (observable 1 2 0 test_callback) = ScNull
   \<and> scope (observable 1 2 0 test_callback)
       \<noteq> scope ((observable 1 2 0 test_callback)\<lparr>scope := ScObject 1\<rparr>)"
  using clone_of_bound_vector
      [of "(observable 1 2 0 test_callback)\<lparr>scope := ScObject 1\<rparr>" test_callback "[]" 1 2 0]
    clone_of_bound_vector
      [of "(observable 1 2 0 test_callback)\<lparr>scope := ScObject 1\<rparr>" test_callback
        "[observable 7 8 9 callback_with_ret, observable 4 5 6 callback_with_x]" 1 2 0]
  by (simp add: observable_def default_arg_def)

text \<open>
  C8 as stated fails on a vector that holds \<open>NaN\<close>. After \<open>a.z = NaN\<close> on \<open>(1, 2, 3)\<close>
  the clone is \<open>(1, 2, 0)\<close>, from the empty pool as from a recycled instance: the \<open>z\<close> is
  not that of the original. After \<open>a.x = NaN\<close> the clone has the \<open>x\<close> of the original, and
  \<open>equals\<close> is false.
\<close>

theorem clone_same_coordinates_counterexample:
  "after (set_z (observable 1 2 3 test_callback) NaN) =
     (observable 1 2 3 test_callback)\<lparr>priv_z := NaN\<rparr>
   \<and> fst (clone (after (set_z (observable 1 2 3 test_callback) NaN)) []) =
       (Returned (observable 1 2 0 test_callback), [])
   \<and> fst (clone (after (set_z (observable 1 2 3 test_callback) NaN))
        [observable 7 8 9 callback_with_ret]) =
       (Returned (observable 1 2 0 test_callback), [])
   \<and> priv_z (observable 1 2 0 test_callback)
       \<noteq> priv_z (after (set_z (observable 1 2 3 test_callback) NaN))
   \<and> after (set_x (observable 1 2 3 test_callback) NaN) =
       (observable 1 2 3 test_callback)\<lparr>priv_x := NaN\<rparr>
   \<and> fst (clone (after (set_x (observable 1 2 3 test_callback) NaN)) []) =
       (Returned ((observable 1 2 3 test_callback)\<lparr>priv_x := NaN\<rparr>), [])
   \<and> \<not> equals ((observable 1 2 3 test_callback)\<lparr>priv_x := NaN\<rparr>)
         (as_vec (after (set_x (observable 1 2 3 test_callback) NaN)))"
  by (simp add: set_z_def set_x_def call_onUpdate_def after_def clone_def pool_pull_def
      constructor_def Vector3d_constructor_def onResetEvent_eq setCallback_def
      default_scope_def default_arg_def blank_def observable_def test_callback_def
      equals_def as_vec_def get_x_def get_y_def get_z_def js_or_def)

section \<open>Absolute values\<close>

text \<open>
  C9. \<open>abs\<close> is one batch write of \<open>|x|\<close>, \<open>|y|\<close> and the current \<open>z\<close>: the sign test of
  the third component reads \<open>this._Z\<close>, which is \<open>undefined\<close>, so \<open>z\<close> is passed as it
  is, negative or not. On a bound vector whose \<open>x\<close> and \<open>y\<close> are numbers the callback is
  told \<open>(|x|, |y|, z)\<close>.
\<close>

theorem abs_never_negates_z:
  "abs_v v =
     priv_set v (case priv_x v of Number a \<Rightarrow> Number \<bar>a\<bar> | u \<Rightarrow> u)
       (case priv_y v of Number b \<Rightarrow> Number \<bar>b\<bar> | u \<Rightarrow> u) (priv_z v)
   \<and> (onUpdate v = Function cb \<and> priv_x v = Number a \<and> priv_y v = Number b \<longrightarrow>
        notified (abs_v v) =
          [\<lparr>inv_scope = scope v, newX = Number \<bar>a\<bar>, newY = Number \<bar>b\<bar>, newZ = priv_z v,
            oldX = Number a, oldY = Number b, oldZ = priv_z v\<rparr>])"
proof -
  have "abs_v v =
     priv_set v (case priv_x v of Number a \<Rightarrow> Number \<bar>a\<bar> | u \<Rightarrow> u)
       (case priv_y v of Number b \<Rightarrow> Number \<bar>b\<bar> | u \<Rightarrow> u) (priv_z v)"
    by (cases "priv_x v"; cases "priv_y v") (simp_all add: abs_v_def priv_Z_def abs_if)
  then show ?thesis
    by (simp add: priv_set_bound notified_def)
qed

theorem abs_never_negates_z_witness:
  "onUpdate (observable (-1) (-2) (-3) test_callback) = Function test_callback
   \<and> priv_x (observable (-1) (-2) (-3) test_callback) = Number (-1)
   \<and> priv_y (observable (-1) (-2) (-3) test_callback) = Number (-2)
   \<and> notified (abs_v (observable (-1) (-2) (-3) test_callback)) =
       [\<lparr>inv_scope = ScNull, newX = Number 1, newY = Number 2, newZ = Number (-3),
         oldX = Number (-1), oldY = Number (-2), oldZ = Number (-3)\<rparr>]
   \<and> after (abs_v (observable (-1) (-2) (-3) test_callback)) =
       observable 1 2 (-3) test_callback"
  using abs_never_negates_z [of "observable (-1) (-2) (-3) test_callback" test_callback "-1" "-2"]
  by (simp add: priv_set_bound after_def notified_def observable_def test_callback_def js_or_def)

section \<open>A \<open>z\<close> of zero on the argument\<close>

text \<open>
  C10. For an argument whose \<open>z\<close> is \<open>0\<close>, \<open>dot\<close> adds \<open>this._z * 1\<close> and \<open>scaleV\<close> writes
  \<open>this._z * 1\<close>: both give what they give for the same argument without its \<open>z\<close>.
\<close>

theorem zero_z_taken_for_missing:
  assumes "vec_z w = Number 0"
  shows "dot v w =
           js_add (js_add (js_mul (priv_x v) (vec_x w)) (js_mul (priv_y v) (vec_y w)))
             (js_mul (priv_z v) (Number 1))
       \<and> scaleV v w =
           priv_set v (js_mul (priv_x v) (vec_x w)) (js_mul (priv_y v) (vec_y w))
             (js_mul (priv_z v) (Number 1))
       \<and> dot v w = dot v (w\<lparr>vec_z := Undefined\<rparr>)
       \<and> scaleV v w = scaleV v (w\<lparr>vec_z := Undefined\<rparr>)"
  using assms by (simp add: dot_def scaleV_def js_or_def)

text \<open>\<open>(1, 2, 3) . (1, 1, 0)\<close> is \<open>6\<close>, and scaling \<open>(1, 2, 3)\<close> by \<open>(1, 1, 0)\<close> keeps \<open>z = 3\<close>.\<close>

theorem zero_z_taken_for_missing_witness:
  "vec_z (Vector3d 1 1 0) = Number 0
   \<and> dot (observable 1 2 3 test_callback) (Vector3d 1 1 0) = Number 6
   \<and> after (scaleV (observable 1 2 3 test_callback) (Vector3d 1 1 0)) =
       observable 1 2 3 test_callback"
  using zero_z_taken_for_missing [of "Vector3d 1 1 0" "observable 1 2 3 test_callback"]
  by (simp add: priv_set_bound after_def observable_def Vector3d_def test_callback_def
      js_or_def)

section \<open>Further properties\<close>

text \<open>
  Every method that writes through \<open>_set\<close> returns \<open>this\<close> and, on a bound vector, calls
  the callback exactly once, on the bound scope, with the coordinates the vector had
  before the call as the old values.
\<close>

theorem batch_methods_notify_once:
  assumes "onUpdate v = Function cb"
    and "m \<in> {add v w, sub v w, scale v a b c, scaleV v w, abs_v v, clampSelf v a b,
               minV v w, maxV v w, floorSelf v, ceilSelf v, negateSelf v, copy v w, perp v,
               rotate v a p, cross v w, lerp v w a}"
  shows "completion_of m = Returned This \<and> length (notified m) = 1
       \<and> oldX (hd (notified m)) = priv_x v \<and> oldY (hd (notified m)) = priv_y v
       \<and> oldZ (hd (notified m)) = priv_z v \<and> inv_scope (hd (notified m)) = scope v"
proof -
  have "\<exists>x y z. m = priv_set v x y z"
    using assms(2)
    unfolding add_def sub_def scale_def scaleV_def abs_v_def clampSelf_def minV_def maxV_def
      floorSelf_def ceilSelf_def negateSelf_def copy_def perp_def rotate_def cross_def
      lerp_def Let_def
    by blast
  then obtain x y z where "m = priv_set v x y z" by blast
  then show ?thesis
    using assms(1) by (simp add: priv_set_bound completion_of_def notified_def)
qed

theorem batch_methods_notify_once_witness:
  "onUpdate (observable 1 2 3 test_callback) = Function test_callback
   \<and> completion_of (perp (observable 1 2 3 test_callback)) = Returned This
   \<and> length (notified (perp (observable 1 2 3 test_callback))) = 1
   \<and> oldX (hd (notified (perp (observable 1 2 3 test_callback)))) = Number 1
   \<and> after (perp (observable 1 2 3 test_callback)) = observable 2 (-1) 3 test_callback"
proof -
  have bound_cb: "onUpdate (observable 1 2 3 test_callback) = Function test_callback"
    by (simp add: observable_def)
  have "completion_of (perp (observable 1 2 3 test_callback)) = Returned This
      \<and> length (notified (perp (observable 1 2 3 test_callback))) = 1
      \<and> oldX (hd (notified (perp (observable 1 2 3 test_callback)))) =
          priv_x (observable 1 2 3 test_callback)
      \<and> oldY (hd (notified (perp (observable 1 2 3 test_callback)))) =
          priv_y (observable 1 2 3 test_callback)
      \<and> oldZ (hd (notified (perp (observable 1 2 3 test_callback)))) =
          priv_z (observable 1 2 3 test_callback)
      \<and> inv_scope (hd (notified (perp (observable 1 2 3 test_callback)))) =
          scope (observable 1 2 3 test_callback)"
    by (rule batch_methods_notify_once
        [where m = "perp (observable 1 2 3 test_callback)" and w = "Vector3d 0 0 0"
          and a = "Number 0" and b = "Number 0" and c = "Number 0" and p = None,
          OF bound_cb]) simp
  moreover have "after (perp (observable 1 2 3 test_callback)) =
      observable 2 (-1) 3 test_callback"
    by (simp add: perp_def priv_set_bound after_def observable_def test_callback_def js_or_def)
  ultimately show ?thesis
    using bound_cb by (simp add: observable_def)
qed

text \<open>
  The values of the test suite: the dot product of \<open>(1, 2, 3)\<close> and \<open>(-1, -2, -3)\<close> is
  \<open>-14\<close>, the cross product of \<open>(2, 3, 4)\<close> and \<open>(5, 6, 7)\<close> is \<open>(-3, 6, -3)\<close>,
  \<open>floorSelf\<close> and \<open>ceilSelf\<close> of \<open>(-0.1, 0.1, 0.3)\<close> are \<open>(-1, 0, 0)\<close> and
  \<open>(0, 1, 1)\<close>, \<open>negateSelf\<close> of \<open>(1, 2, 3)\<close> is \<open>(-1, -2, -3)\<close>, and a write of
  \<open>(100, 100, 100)\<close> under \<open>callback_with_ret\<close> leaves \<open>(10, 10, 10)\<close>.
\<close>

theorem test_suite_values:
  "dot (observable 1 2 3 test_callback) (as_vec (observable (-1) (-2) (-3) test_callback))
     = Number (-14)
   \<and> after (cross (observable 2 3 4 test_callback) (as_vec (observable 5 6 7 test_callback)))
     = observable (-3) 6 (-3) test_callback
   \<and> after (floorSelf (observable (-1/10) (1/10) (3/10) test_callback))
     = observable (-1) 0 0 test_callback
   \<and> after (ceilSelf (observable (-1/10) (1/10) (3/10) test_callback))
     = observable 0 1 1 test_callback
   \<and> after (negateSelf (observable 1 2 3 test_callback)) = observable (-1) (-2) (-3) test_callback
   \<and> after (priv_set (observable 0 0 0 callback_with_ret) (Number 100) (Number 100)
        (Number 100)) = observable 10 10 10 callback_with_ret"
  by (simp add: dot_def cross_def floorSelf_def ceilSelf_def negateSelf_def as_vec_def
      get_x_def get_y_def get_z_def priv_set_bound after_def observable_def test_callback_def
      callback_with_ret_def js_or_def Let_def ceiling_def)

text \<open>
  What \<open>equals\<close> decides on numbers: the \<open>x\<close> and the \<open>y\<close> are equal, and the argument
  has no \<open>z\<close>, or a \<open>z\<close> of \<open>0\<close>, or the \<open>z\<close> of the vector.
\<close>

theorem equals_on_numbers:
  assumes "priv_x v = Number a" and "priv_y v = Number b" and "priv_z v = Number c"
    and "vec_x w = Number a'" and "vec_y w = Number b'"
  shows "equals v w \<longleftrightarrow>
           a = a' \<and> b = b'
           \<and> (case vec_z w of Undefined \<Rightarrow> True | NaN \<Rightarrow> True | Number c' \<Rightarrow> c' = 0 \<or> c = c')"
  using assms by (cases "vec_z w") (auto simp: equals_def js_or_def)

theorem equals_on_numbers_witness:
  "priv_x (observable 1 2 3 test_callback) = Number 1
   \<and> priv_y (observable 1 2 3 test_callback) = Number 2
   \<and> priv_z (observable 1 2 3 test_callback) = Number 3
   \<and> vec_x (Vector3d 1 2 4) = Number 1 \<and> vec_y (Vector3d 1 2 4) = Number 2
   \<and> \<not> equals (observable 1 2 3 test_callback) (Vector3d 1 2 4)
   \<and> equals (observable 1 2 3 test_callback) (Vector3d 1 2 3)
   \<and> equals (observable 1 2 3 test_callback) (Vector2d 1 2)"
  using equals_on_numbers [of "observable 1 2 3 test_callback" 1 2 3 "Vector3d 1 2 4" 1 2]
    equals_on_numbers [of "observable 1 2 3 test_callback" 1 2 3 "Vector3d 1 2 3" 1 2]
    equals_on_numbers [of "observable 1 2 3 test_callback" 1 2 3 "Vector2d 1 2" 1 2]
  by (simp add: observable_def Vector3d_def Vector2d_def)

text \<open>
  The two branches of \<open>moveTowards\<close> on numbers, with \<open>d\<close> the distance in the plane.
  When \<open>d = 0\<close>, or \<open>step \<ge> 0\<close> and \<open>d \<le> step * step\<close>, the target is returned, the
  vector is as before and no callback is called. Otherwise there is one batch write, of
  the point at \<open>step\<close> along the angle to the target, with the \<open>z\<close> of the vector.
\<close>

theorem moveTowards_branches:
  assumes "priv_x v = Number a" and "priv_y v = Number b"
    and "vec_x t = Number a'" and "vec_y t = Number b'" and "step = Number s"
  shows "(sqrt ((a - a')\<^sup>2 + (b - b')\<^sup>2) = 0
            \<or> (0 \<le> s \<and> sqrt ((a - a')\<^sup>2 + (b - b')\<^sup>2) \<le> s * s)
          \<longrightarrow> moveTowards v t step = (Returned Target, v, []))
       \<and> (\<not> (sqrt ((a - a')\<^sup>2 + (b - b')\<^sup>2) = 0
            \<or> (0 \<le> s \<and> sqrt ((a - a')\<^sup>2 + (b - b')\<^sup>2) \<le> s * s))
          \<longrightarrow> moveTowards v t step =
                priv_set v (Number (a + cos (atan2 (b' - b) (a' - a)) * s))
                  (Number (b + sin (atan2 (b' - b) (a' - a)) * s)) (priv_z v))"
proof -
  have "\<not> (a - a') * (a - a') + (b - b') * (b - b') < 0"
    by (simp add: not_less)
  then show ?thesis
    using assms by (auto simp: moveTowards_def Let_def power2_eq_square)
qed

theorem moveTowards_branches_witness:
  "priv_x (observable 0 0 5 test_callback) = Number 0
   \<and> priv_y (observable 0 0 5 test_callback) = Number 0
   \<and> vec_x (Vector3d 10 0 0) = Number 10 \<and> vec_y (Vector3d 10 0 0) = Number 0
   \<and> moveTowards (observable 0 0 5 test_callback) (Vector3d 10 0 0) (Number 1) =
       (Returned This, observable 1 0 5 test_callback,
        [\<lparr>inv_scope = ScNull, newX = Number 1, newY = Number 0, newZ = Number 5,
          oldX = Number 0, oldY = Number 0, oldZ = Number 5\<rparr>])
   \<and> moveTowards (observable 0 0 5 test_callback) (Vector3d 10 0 0) (Number 4) =
       (Returned Target, observable 0 0 5 test_callback, [])"
proof -
  have d: "sqrt ((0 - 10)\<^sup>2 + (0 - 0)\<^sup>2) = (10::real)"
    by simp
  show ?thesis
    using moveTowards_branches [of "observable 0 0 5 test_callback" 0 0 "Vector3d 10 0 0" 10 0
        "Number 1" 1]
      moveTowards_branches [of "observable 0 0 5 test_callback" 0 0 "Vector3d 10 0 0" 10 0
        "Number 4" 4]
    unfolding d
    by (simp add: atan2_def priv_set_bound observable_def Vector3d_def test_callback_def
        js_or_def)
qed

end
